theory Spec2Isabelle
  imports Main "HOL-Library.Word" "HOL-Library.AList"
begin

section \<open>Options and their defaults (ipproxy.go)\<close>

text \<open>
  Go's \<open>int\<close> and \<open>time.Duration\<close> fields of \<open>Opts\<close> are only compared with zero
  and overwritten, never computed with, so they are modelled as \<open>int\<close>; a duration is
  a number of nanoseconds, as in Go.  A function-valued field is either \<open>nil\<close>
  (\<open>None\<close>) or a function; the two functions that \<open>ApplyDefaults\<close> builds from a
  fresh \<open>net.Dialer\<close> are constructors of their own, a function supplied by the
  caller is identified by a tag.
\<close>

type_synonym duration = int

definition Nanosecond :: duration where "Nanosecond = 1"
definition Millisecond :: duration where "Millisecond = 1000000"
definition Second :: duration where "Second = 1000000000"

definition DefaultMTU :: int where "DefaultMTU = 1500"
definition DefaultOutboundBufferDepth :: int where "DefaultOutboundBufferDepth = 10000"
definition DefaultIdleTimeout :: duration where "DefaultIdleTimeout = 65 * Second"
definition DefaultTCPConnectBacklog :: int where "DefaultTCPConnectBacklog = 10"
definition DefaultStatsInterval :: duration where "DefaultStatsInterval = 15 * Second"

datatype dial_tcp = NetDialerDialContext | CallerDialTCP nat
datatype dial_udp = NetDialerDialContextUDP | CallerDialUDP nat

record Opts =
  MTU :: int
  OutboundBufferDepth :: int
  IdleTimeout :: duration
  TCPConnectBacklog :: int
  StatsInterval :: duration
  DialTCP :: "dial_tcp option"
  DialUDP :: "dial_udp option"

text \<open>The zero value \<open>&Opts{}\<close> that \<open>ApplyDefaults\<close> allocates for a nil receiver.\<close>

definition zeroOpts :: Opts where
  "zeroOpts = \<lparr> MTU = 0, OutboundBufferDepth = 0, IdleTimeout = 0,
     TCPConnectBacklog = 0, StatsInterval = 0, DialTCP = None, DialUDP = None \<rparr>"

text \<open>
  \<open>ApplyDefaults\<close>: the receiver is a pointer, \<open>None\<close> is the nil pointer.  The
  seven tests follow the source in order; each one reads and writes only its own field.
\<close>

definition ApplyDefaults :: "Opts option \<Rightarrow> Opts" where
  "ApplyDefaults p =
     (let opts = (case p of None \<Rightarrow> zeroOpts | Some x \<Rightarrow> x);
          opts = (if MTU opts \<le> 0 then opts\<lparr>MTU := DefaultMTU\<rparr> else opts);
          opts = (if OutboundBufferDepth opts \<le> 0
                  then opts\<lparr>OutboundBufferDepth := DefaultOutboundBufferDepth\<rparr> else opts);
          opts = (if IdleTimeout opts \<le> 0
                  then opts\<lparr>IdleTimeout := DefaultIdleTimeout\<rparr> else opts);
          opts = (if TCPConnectBacklog opts \<le> 0
                  then opts\<lparr>TCPConnectBacklog := DefaultTCPConnectBacklog\<rparr> else opts);
          opts = (if StatsInterval opts \<le> 0
                  then opts\<lparr>StatsInterval := DefaultStatsInterval\<rparr> else opts);
          opts = (if DialTCP opts = None
                  then opts\<lparr>DialTCP := Some NetDialerDialContext\<rparr> else opts);
          opts = (if DialUDP opts = None
                  then opts\<lparr>DialUDP := Some NetDialerDialContextUDP\<rparr> else opts)
      in opts)"


section \<open>Packets and addresses\<close>

text \<open>
  The declarations of \<open>addr\<close>, \<open>fourtuple\<close> and \<open>ipPacket\<close> are not among the
  source files; their fields are the ones the code reads (\<open>dstAddr.ip\<close>,
  \<open>dstAddr.port\<close>, \<open>pkt.ft().dst\<close>, \<open>pkt.ipProto\<close>, \<open>pkt.raw\<close>).
\<close>

type_synonym byte = "8 word"

datatype addr = Addr (ip: string) (port: "16 word")

datatype fourtuple = FourTuple (src: addr) (dst: addr)

record ipPacket =
  raw :: "byte list"
  ipProto :: "8 word"
  ft :: fourtuple

definition IPProtocolICMP :: "8 word" where "IPProtocolICMP = 1"
definition IPProtocolTCP :: "8 word" where "IPProtocolTCP = 6"
definition IPProtocolUDP :: "8 word" where "IPProtocolUDP = 17"

datatype FullAddress = FullAddress (NIC: nat) (Address: string) (Port: "16 word")

section \<open>Errors\<close>

text \<open>
  Go errors are values.  \<open>EOF\<close> is the sentinel \<open>io.EOF\<close>, which the code
  compares by identity; \<open>ErrorsNew msg e\<close> is \<open>errors.New(msg, e)\<close> of
  getlantern/errors, a new error that carries \<open>e\<close> as its cause.
\<close>

datatype error = EOF | IOError nat | ErrorsNew string "error option"

datatype tcpip_error = ErrWouldBlock | ErrTcpip nat

text \<open>
  How a loop of the program ends, seen from a finite script of what its environment
  answers: it returned a value, it is still blocked waiting for the next answer when
  the script is used up, it never returns, or it panicked.
\<close>

datatype 'a outcome = Returned 'a | Blocked | Diverged | Panicked

section \<open>Connections, destinations and the proxy\<close>

datatype close_state = Open | Closing | Closed

record baseConn =
  lastActive :: int
  upstream :: "nat option"
  ep :: "nat option"

record tcpDest = baseConn +
  addr :: addr
  conns :: "(FullAddress \<times> baseConn) list"

text \<open>
  What the proxy does to its collaborators (the userspace stack, the logger, the
  scheduler, other objects' \<open>Close\<close>) is recorded in order.  \<open>Go c\<close> is the
  statement \<open>go c\<close>: the call is handed to a new goroutine and the caller goes on;
  \<open>Call c\<close> is an ordinary call, which the caller waits for.
\<close>

datatype mutex = TcpConnTrackMx | ConnsMx addr

datatype call =
    CloseConn baseConn
  | CloseDest tcpDest
  | Accept tcpDest
  | CopyToUpstream baseConn
  | CopyFromUpstream baseConn
  | Finalize tcpDest
  | OnUDP ipPacket
  | ReapUDP
  | CloseTCP
  | CloseUDP
  | CloseNow
  | IcmpStackClose
  | ReapTickerStop
  | WgDone
  | WgWait

datatype event =
    Lock mutex
  | Unlock mutex
  | Sleep duration
  | WaitNotify
  | CreateNIC nat
  | AddAddress nat string
  | InitDest nat addr
  | Listen int
  | Inject "byte list"
  | InjectICMP "byte list"
  | LogError string
  | LogDebug string
  | Go call
  | Call call

text \<open>
  The proxy.  \<open>ipproxy.go\<close> declares the destination map as \<open>tcpOrigins\<close>,
  \<open>tcp.go\<close> reads and writes it as \<open>tcpConnTrack\<close> under \<open>tcpConnTrackMx\<close>;
  it is one field here, under the name the TCP code uses.  A Go map is an association
  list with one entry per key (\<open>AList.update\<close>, \<open>AList.delete\<close>, \<open>map_of\<close>);
  the order of the list stands for the order in which \<open>range\<close> visits the map,
  which Go leaves open.  The counters are \<open>int64\<close>.  The last three fields are not
  fields of the Go struct: the counter behind \<open>nextNICID\<close>, the wall clock that
  \<open>time.Now\<close> reads, and the record of calls made.
\<close>

record proxy =
  acceptedPackets :: "64 word"
  rejectedPackets :: "64 word"
  numTcpOrigins :: "64 word"
  numTcpConns :: "64 word"
  numUdpConns :: "64 word"
  opts :: Opts
  downstream :: nat
  pktIn :: "ipPacket list"
  tcpConnTrack :: "(addr \<times> tcpDest) list"
  udpConns :: "(fourtuple \<times> nat) list"
  toDownstream :: "(byte list) list"
  closeState :: close_state
  nicCounter :: nat
  now :: int
  trace :: "event list"

text \<open>
  \<open>New\<close> returns the pair \<open>(Proxy, error)\<close>; \<open>None\<close> in either place is
  \<open>nil\<close>.  Every channel and map starts empty, every counter at zero, the three
  channels of the embedded \<open>closeable\<close> are open.  \<open>proto\<close> is the constant
  \<open>ipv4.ProtocolNumber\<close> and the finalizer returns nil; both are left out.  The
  clock of the model starts at zero.
\<close>

definition New :: "nat \<Rightarrow> Opts option \<Rightarrow> proxy option \<times> error option" where
  "New ds po =
     (let os = ApplyDefaults po;
          p = \<lparr> acceptedPackets = 0, rejectedPackets = 0, numTcpOrigins = 0,
                numTcpConns = 0, numUdpConns = 0, opts = os, downstream = ds,
                pktIn = [], tcpConnTrack = [], udpConns = [], toDownstream = [],
                closeState = Open, nicCounter = 0, now = 0, trace = [] \<rparr>
      in (Some p, None))"

definition receiver :: "Opts option \<Rightarrow> Opts" where
  "receiver p = (case p of None \<Rightarrow> zeroOpts | Some x \<Rightarrow> x)"

section \<open>The endpoint write loop (writeToDownstream)\<close>

definition maxWriteWait :: duration where "maxWriteWait = 30 * Millisecond"

text \<open>
  \<open>time.Duration\<close> is an \<open>int64\<close>: the loop counter \<open>i\<close>, its increment and
  the product \<open>i * 1 * time.Millisecond\<close> wrap around.
\<close>

definition wrap64 :: "int \<Rightarrow> int" where
  "wrap64 x = (x + 2 ^ 63) mod 2 ^ 64 - 2 ^ 63"

text \<open>
  What \<open>conn.ep.Write\<close> answers: the number of bytes it took, or an error.  One
  \<open>attempt\<close> is one pass through the loop body: the slice offered to
  \<open>ep.Write\<close>, its answer, and the duration passed to \<open>time.Sleep\<close>
  (\<open>None\<close> when \<open>time.Sleep\<close> is not called).
\<close>

datatype write_result = Wrote nat | WriteErr tcpip_error

datatype attempt = Attempt (offered: "byte list") (answer: write_result) (slept: "duration option")

definition backoff :: "duration \<Rightarrow> duration option" where
  "backoff i =
     (let waitTime = wrap64 (wrap64 (i * 1) * Millisecond);
          waitTime = (if waitTime > maxWriteWait then maxWriteWait else waitTime)
      in if waitTime > 0 then Some waitTime else None)"

text \<open>
  The loop of \<open>writeToDownstream\<close>, run against the answers of the endpoint in the
  order it gives them.  \<open>continue\<close> and the end of the body both reach the post
  statement \<open>i++\<close>.  \<open>b = b[n:]\<close> panics when \<open>n\<close> exceeds \<open>len(b)\<close>.
  When the answers are used up the loop is still running (\<open>Blocked\<close>).  The
  \<open>responseOptions\<close> are handed to \<open>ep.Write\<close> unchanged and left out.
\<close>

fun writeLoop :: "duration \<Rightarrow> byte list \<Rightarrow> write_result list
    \<Rightarrow> tcpip_error option outcome \<times> attempt list" where
  "writeLoop i b [] = (Blocked, [])"
| "writeLoop i b (WriteErr e # rs) =
     (if e = ErrWouldBlock
      then apsnd ((#) (Attempt b (WriteErr e) (backoff i))) (writeLoop (wrap64 (i + 1)) b rs)
      else (Returned (Some e), [Attempt b (WriteErr e) None]))"
| "writeLoop i b (Wrote n # rs) =
     (if n > length b then (Panicked, [Attempt b (Wrote n) None])
      else if length (drop n b) = 0 then (Returned None, [Attempt b (Wrote n) None])
      else apsnd ((#) (Attempt b (Wrote n) None)) (writeLoop (wrap64 (i + 1)) (drop n b) rs))"


text \<open>The bytes the endpoint took over a run.\<close>

fun written :: "attempt \<Rightarrow> nat" where
  "written (Attempt b (Wrote n) s) = n"
| "written (Attempt b (WriteErr e) s) = 0"

definition delivered :: "attempt list \<Rightarrow> nat" where
  "delivered log = sum_list (map written log)"




section \<open>Finalizers (newBaseConn, newOrigin)\<close>

text \<open>
  The calls a finalizer makes, in the order it makes them.  A finalizer is a
  \<open>func() error\<close>, given by the calls it makes and the error it returns;
  \<open>None\<close> is the nil function.
\<close>

datatype fin_event =
    StackClose
  | CallerFinalizer
  | ChannelDrain
  | UpstreamClose
  | WqEventUnregister
  | EndpointClose

type_synonym finalizer = "(fin_event list \<times> error option) option"

text \<open>
  The closure that \<open>newOrigin\<close> hands to \<open>newBaseConn\<close>: \<open>s.Close()\<close>, then the
  caller's \<open>finalizer(o)\<close> when it is not nil, then \<open>channelEndpoint.Drain()\<close>.  The
  caller's finalizer is given by the error it returns.
\<close>

definition newOrigin_finalizer :: "error option option \<Rightarrow> finalizer" where
  "newOrigin_finalizer caller =
     Some ([StackClose] @ (case caller of None \<Rightarrow> [] | Some r \<Rightarrow> [CallerFinalizer])
             @ [ChannelDrain],
           (case caller of None \<Rightarrow> None | Some r \<Rightarrow> r))"

text \<open>
  \<open>conn.finalizer\<close> as \<open>newBaseConn\<close> sets it, run on the connection as it is when
  it is closed (\<open>conn.ep\<close> is assigned after construction).  \<open>closed\<close> is what
  \<open>conn.upstream.Close()\<close> returns; it replaces the error only when that is still nil.
\<close>

definition conn_finalizer ::
  "finalizer \<Rightarrow> ('a baseConn_scheme) \<Rightarrow> error option \<Rightarrow> fin_event list \<times> error option" where
  "conn_finalizer fin conn closed =
     (let (ev1, err) = (case fin of None \<Rightarrow> ([], None) | Some (ev, e) \<Rightarrow> (ev, e));
          (ev2, err) = (if upstream conn \<noteq> None
                        then ([UpstreamClose], if err = None then closed else err)
                        else ([], err));
          ev3 = [WqEventUnregister];
          ev4 = (if ep conn \<noteq> None then [EndpointClose] else [])
      in (ev1 @ ev2 @ ev3 @ ev4, err))"

text \<open>
  Modelled from the spec: the \<open>closeable\<close> primitive (\<open>Close\<close>, \<open>closeNow\<close>,
  \<open>finalize\<close>) is not among the source files.  The spec has \<open>close()\<close> block until
  the finalizer has run, and be idempotent, so that a finalizer runs exactly once: the
  first \<open>Close\<close> of an object runs its finalizer and leaves it closed, a \<open>Close\<close> of
  a closed object does nothing.  The state is the close state and the calls made so far.
\<close>

definition Close :: "fin_event list \<times> error option
    \<Rightarrow> close_state \<times> fin_event list \<Rightarrow> close_state \<times> fin_event list" where
  "Close fin s = (if fst s = Closed then s else (Closed, snd s @ fst fin))"

section \<open>The TCP acceptor (tcp.go, accept)\<close>

text \<open>
  One pass through the acceptor loop, as its environment answers it: what
  \<open>dest.ep.Accept()\<close> returns and, for an accepted flow, the remote address of the
  accepted endpoint, what \<open>DialTCP\<close> returns and the clock when the connection is
  built.  The wait queue that comes with an accepted endpoint is only handed on and is
  left out.  \<open>dest.addr\<close> is the string of the destination address in the source;
  it is kept as the address here.
\<close>

datatype dial_result = DialOk nat | DialErr error

datatype accept_step =
    AcceptFails tcpip_error
  | AcceptOk nat FullAddress dial_result int

text \<open>
  The acceptor.  On \<open>ErrWouldBlock\<close> it receives from \<open>dest.notifyCh\<close> and goes
  round again; on any other error of \<open>Accept\<close>, and on an error of the dial, it logs
  and returns.  Otherwise it builds the connection, starts its two copiers and stores
  it in \<open>dest.conns\<close> under \<open>connsMx\<close>.  When the answers are used up the
  acceptor is still waiting.
\<close>

fun accept :: "tcpDest \<Rightarrow> accept_step list \<Rightarrow> unit outcome \<times> tcpDest \<times> event list" where
  "accept dest [] = (Blocked, dest, [])"
| "accept dest (AcceptFails e # rest) =
     (if e = ErrWouldBlock
      then (case accept dest rest of (out, d, evs) \<Rightarrow> (out, d, WaitNotify # evs))
      else (Returned (), dest, [LogError ''Accept() failed: %v'']))"
| "accept dest (AcceptOk acceptedEp downstreamAddr dial t # rest) =
     (case dial of
        DialErr dialErr \<Rightarrow>
          (Returned (), dest, [LogError ''Unexpected error dialing upstream to %v: %v''])
      | DialOk up \<Rightarrow>
          (let tcpConn = \<lparr> lastActive = t, upstream = Some up, ep = Some acceptedEp \<rparr>;
               dest' = dest\<lparr> conns := AList.update downstreamAddr tcpConn (conns dest) \<rparr>
           in case accept dest' rest of
                (out, d, evs) \<Rightarrow>
                  (out, d, [Go (CopyToUpstream tcpConn), Go (CopyFromUpstream tcpConn),
                            Lock (ConnsMx (addr dest)), Unlock (ConnsMx (addr dest))] @ evs)))"

text \<open>The answers after which the acceptor goes round again.\<close>

fun keepsAccepting :: "accept_step \<Rightarrow> bool" where
  "keepsAccepting (AcceptFails e) = (e = ErrWouldBlock)"
| "keepsAccepting (AcceptOk acceptedEp downstreamAddr (DialOk up) t) = True"
| "keepsAccepting (AcceptOk acceptedEp downstreamAddr (DialErr dialErr) t) = False"

section \<open>Reading from downstream (ipproxy.go, readDownstreamPackets)\<close>

text \<open>
  Modelled from the spec: the counter helpers \<open>acceptedPacket\<close> and
  \<open>rejectedPacket\<close> are not among the source files.  The spec has them count one
  packet: the \<open>int64\<close> counter goes up by one.
\<close>

definition acceptedPacket :: "proxy \<Rightarrow> proxy" where
  "acceptedPacket p = p\<lparr> acceptedPackets := acceptedPackets p + 1 \<rparr>"

definition rejectedPacket :: "proxy \<Rightarrow> proxy" where
  "rejectedPacket p = p\<lparr> rejectedPackets := rejectedPackets p + 1 \<rparr>"

definition record_event :: "event \<Rightarrow> proxy \<Rightarrow> proxy" where
  "record_event e p = p\<lparr> trace := trace p @ [e] \<rparr>"




section \<open>TCP destinations (tcp.go, onTCP and startTCPDest)\<close>

text \<open>
  How far \<open>startTCPDest\<close> gets with the userspace stack: the first of its four calls
  that fails, or none.
\<close>

datatype stack_reply = CreateNICFails | AddAddressFails | InitFails | ListenFails | StackOk

text \<open>
  \<open>nextNICID\<close> is not among the source files; it is taken to hand out the successor
  of a counter.
\<close>

definition nextNICID :: "proxy \<Rightarrow> nat \<times> proxy" where
  "nextNICID p = (Suc (nicCounter p), p\<lparr> nicCounter := Suc (nicCounter p) \<rparr>)"

text \<open>
  \<open>startTCPDest\<close>.  The destination is built by \<open>newBaseConn(p, nil, nil)\<close>, with
  no upstream, and marked active at the current clock; \<open>init\<close> gives it its
  endpoint.  Only when \<open>Listen\<close> has succeeded is the acceptor started
  (\<open>go dest.accept()\<close>) and the destination returned.
\<close>

definition startTCPDest :: "stack_reply \<Rightarrow> proxy \<Rightarrow> addr \<Rightarrow> (error + tcpDest) \<times> proxy" where
  "startTCPDest reply p dstAddr =
     (let (nicID, p) = nextNICID p;
          p = record_event (CreateNIC nicID) p
      in if reply = CreateNICFails
         then (Inl (ErrorsNew ''Unable to create TCP NIC: %v'' None), p)
         else
           let p = record_event (AddAddress nicID (ip dstAddr)) p
           in if reply = AddAddressFails
              then (Inl (ErrorsNew ''Unable to add IP addr for TCP dest: %v'' None), p)
              else
                let dest = \<lparr> lastActive = now p, upstream = None, ep = None,
                             addr = dstAddr, conns = [] \<rparr>;
                    p = record_event (InitDest nicID dstAddr) p
                in if reply = InitFails
                   then (Inl (ErrorsNew ''Unable to initialize TCP dest: %v'' None), p)
                   else
                     let dest = dest\<lparr> ep := Some nicID \<rparr>;
                         p = record_event (Listen (TCPConnectBacklog (opts p))) p
                     in if reply = ListenFails
                        then (Inl (ErrorsNew ''Unable to listen for TCP connections: %v'' None),
                              record_event (Call (Finalize dest)) p)
                        else (Inr dest, record_event (Go (Accept dest)) p))"

text \<open>
  \<open>onTCP\<close>.  The map is read under \<open>tcpConnTrackMx\<close>, the mutex is released, and
  only when the key has no destination is one started and then stored, again under the
  mutex.  A lookup that finds no entry gives \<open>nil\<close>.  When starting fails the
  error is logged (\<open>log.Error(err)\<close>, here with the text of the error) and the
  packet is dropped; otherwise the packet is injected.
\<close>

definition errorString :: "error \<Rightarrow> string" where
  "errorString err =
     (case err of EOF \<Rightarrow> ''EOF'' | IOError n \<Rightarrow> ''i/o error'' | ErrorsNew msg cause \<Rightarrow> msg)"

definition onTCP :: "stack_reply \<Rightarrow> proxy \<Rightarrow> ipPacket \<Rightarrow> proxy" where
  "onTCP reply p pkt =
     (let dstAddr = dst (ft pkt);
          p = record_event (Lock TcpConnTrackMx) p;
          dest = map_of (tcpConnTrack p) dstAddr;
          p = record_event (Unlock TcpConnTrackMx) p
      in case dest of
           Some d \<Rightarrow> record_event (Inject (raw pkt)) p
         | None \<Rightarrow>
             (case startTCPDest reply p dstAddr of
                (Inl err, p) \<Rightarrow> record_event (LogError (errorString err)) p
              | (Inr d, p) \<Rightarrow>
                  (let p = record_event (Lock TcpConnTrackMx) p;
                       p = p\<lparr> tcpConnTrack := AList.update dstAddr d (tcpConnTrack p) \<rparr>;
                       p = record_event (Unlock TcpConnTrackMx) p
                   in record_event (Inject (raw pkt)) p)))"

text \<open>
  The demultiplexer handing TCP packets to \<open>onTCP\<close> one after the other, each with
  the stack's reply should a destination be started for it.
\<close>

fun onTCP_all :: "proxy \<Rightarrow> (stack_reply \<times> ipPacket) list \<Rightarrow> proxy" where
  "onTCP_all p [] = p"
| "onTCP_all p ((reply, pkt) # rest) = onTCP_all (onTCP reply p pkt) rest"

text \<open>
  The origins that exist for a key: the destinations for that address whose acceptor
  has been started.
\<close>

fun startsOrigin :: "addr \<Rightarrow> event \<Rightarrow> bool" where
  "startsOrigin a (Go (Accept d)) = (addr d = a)"
| "startsOrigin a e = False"

definition originsFor :: "addr \<Rightarrow> event list \<Rightarrow> nat" where
  "originsFor a evs = length (filter (startsOrigin a) evs)"

text \<open>
  The invariant of the destination map: an address has an origin exactly when the map
  has an entry for it, and never more than one.
\<close>

definition one_origin_per_key :: "proxy \<Rightarrow> bool" where
  "one_origin_per_key p =
     (\<forall>a. originsFor a (trace p) = (if map_of (tcpConnTrack p) a = None then 0 else 1))"


section \<open>The reaper (tcp.go, reapTCP)\<close>

text \<open>
  \<open>timeSinceLastActive\<close>: the clock less \<open>lastActive\<close>, an \<open>int64\<close> subtraction.
  The clock of the model moves in \<open>time.Sleep\<close> only, so every reading within one
  pass is the same.
\<close>

definition timeSinceLastActive :: "int \<Rightarrow> ('a baseConn_scheme) \<Rightarrow> duration" where
  "timeSinceLastActive clock conn = wrap64 (clock - lastActive conn)"

text \<open>
  The other goroutines.  \<open>reapTCP\<close> copies the clients of a destination under
  \<open>connsMx\<close>, releases the mutex, and then ranges over \<open>dest.conns\<close> itself, which
  acceptors and finalizers may have changed in between.  \<open>live a cs\<close> is what
  \<open>dest.conns\<close> of the destination for \<open>a\<close> holds when the loop ranges over it,
  given that it held \<open>cs\<close> when the copy was made.  \<open>undisturbed\<close> is the
  environment in which nothing else touches the map in between.
\<close>

type_synonym interference =
  "addr \<Rightarrow> (FullAddress \<times> baseConn) list \<Rightarrow> (FullAddress \<times> baseConn) list"

definition undisturbed :: interference where
  "undisturbed a cs = cs"

text \<open>The inner loop: \<open>go conn.Close()\<close> for each connection that has been idle too long.\<close>

fun closeIdle :: "proxy \<Rightarrow> baseConn list \<Rightarrow> proxy" where
  "closeIdle p [] = p"
| "closeIdle p (conn # rest) =
     closeIdle
       (if timeSinceLastActive (now p) conn > IdleTimeout (opts p)
        then record_event (Go (CloseConn conn)) p else p)
       rest"

text \<open>
  The body of the outer loop for one entry \<open>(a, dest)\<close> of the copied map.  The test
  is on the length of the copy \<open>conns\<close>; the loop is over \<open>dest.conns\<close>.  The close
  of a destination is an ordinary call: \<open>dest.Close()\<close>, with no \<open>go\<close>.
\<close>

definition reapDest :: "interference \<Rightarrow> proxy \<Rightarrow> addr \<Rightarrow> tcpDest \<Rightarrow> proxy" where
  "reapDest live p a dest =
     (let p = record_event (Lock (ConnsMx a)) p;
          conns_copy = map snd (conns dest);
          p = record_event (Unlock (ConnsMx a)) p
      in if length conns_copy > 0
         then closeIdle p (map snd (live a (conns dest)))
         else if timeSinceLastActive (now p) dest > IdleTimeout (opts p)
         then
           (let p = record_event (Lock TcpConnTrackMx) p;
                p = p\<lparr> tcpConnTrack := AList.delete a (tcpConnTrack p) \<rparr>;
                p = record_event (Unlock TcpConnTrackMx) p
            in record_event (Call (CloseDest dest)) p)
         else p)"

fun reapDests :: "interference \<Rightarrow> proxy \<Rightarrow> (addr \<times> tcpDest) list \<Rightarrow> proxy" where
  "reapDests live p [] = p"
| "reapDests live p ((a, dest) # rest) = reapDests live (reapDest live p a dest) rest"

text \<open>
  One pass: the body of the \<open>for\<close> loop of \<open>reapTCP\<close>.  It sleeps one second,
  copies the destination map under \<open>tcpConnTrackMx\<close> and handles every entry of the
  copy.
\<close>

definition reapTCP_pass :: "interference \<Rightarrow> proxy \<Rightarrow> proxy" where
  "reapTCP_pass live p =
     (let p = record_event (Sleep (1 * Second)) (p\<lparr> now := now p + 1 * Second \<rparr>);
          p = record_event (Lock TcpConnTrackMx) p;
          dests = tcpConnTrack p;
          p = record_event (Unlock TcpConnTrackMx) p
      in reapDests live p dests)"

text \<open>
  \<open>reapTCP\<close> itself: \<open>for { ... }\<close> with no condition, no \<open>break\<close> and no
  \<open>return\<close>.  The result is the proxy as \<open>reapTCP\<close> leaves it when it returns,
  \<open>None\<close> when it does not return.
\<close>

partial_function (option) reapTCP :: "interference \<Rightarrow> proxy \<Rightarrow> proxy option" where
  "reapTCP live p = reapTCP live (reapTCP_pass live p)"

text \<open>
  A connection that has been idle too long at a given clock, and the calls by which the
  reaper would wait for a connection's finalizer.
\<close>

definition idle :: "proxy \<Rightarrow> int \<Rightarrow> ('a baseConn_scheme) \<Rightarrow> bool" where
  "idle p clock conn = (timeSinceLastActive clock conn > IdleTimeout (opts p))"

fun waitsForConn :: "event \<Rightarrow> bool" where
  "waitsForConn (Call (CloseConn c)) = True"
| "waitsForConn e = False"

fun waitsForClose :: "event \<Rightarrow> bool" where
  "waitsForClose (Call (CloseConn c)) = True"
| "waitsForClose (Call (CloseDest d)) = True"
| "waitsForClose e = False"

section \<open>The demultiplexer (ipproxy.go, copyToUpstream)\<close>

text \<open>
  What the \<open>select\<close> of the demux loop receives: a packet from \<open>pktIn\<close> (with the
  stack's reply, should \<open>onTCP\<close> start a destination for it), a tick of the reaper's
  ticker, or the close of \<open>closeCh\<close>.  \<open>onUDP\<close> and \<open>reapUDP\<close> are not among the
  source files; calls to them are recorded.
\<close>

datatype select_case = PktIn ipPacket stack_reply | ReapTick | CloseCh

text \<open>
  The deferred calls of \<open>copyToUpstream\<close>, in the order they run when it returns
  (last deferred first).
\<close>

definition copyToUpstream_deferred :: "proxy \<Rightarrow> proxy" where
  "copyToUpstream_deferred p =
     record_event (Call WgDone)
       (record_event (Call CloseNow)
         (record_event (Call IcmpStackClose)
           (record_event (Call CloseTCP)
             (record_event (Call CloseUDP)
               (record_event (Call ReapTickerStop) p)))))"

text \<open>
  The demux loop.  On a tick it calls \<open>p.reapTCP()\<close> and, when that has returned,
  \<open>p.reapUDP()\<close>; it reads the next case only after both.  While the cases are used
  up the loop is waiting in \<open>select\<close>.
\<close>

fun copyToUpstream :: "interference \<Rightarrow> proxy \<Rightarrow> select_case list \<Rightarrow> unit outcome \<times> proxy" where
  "copyToUpstream live p [] = (Blocked, p)"
| "copyToUpstream live p (PktIn pkt reply # rest) =
     (if ipProto pkt = IPProtocolTCP
      then copyToUpstream live (onTCP reply (acceptedPacket p) pkt) rest
      else if ipProto pkt = IPProtocolUDP
      then copyToUpstream live (record_event (Call (OnUDP pkt)) (acceptedPacket p)) rest
      else if ipProto pkt = IPProtocolICMP
      then copyToUpstream live (record_event (InjectICMP (raw pkt)) (acceptedPacket p)) rest
      else copyToUpstream live
             (record_event (LogDebug ''Unknown IP protocol, ignoring: %v'') (rejectedPacket p))
             rest)"
| "copyToUpstream live p (ReapTick # rest) =
     (case reapTCP live p of
        None \<Rightarrow> (Diverged, p)
      | Some p' \<Rightarrow> copyToUpstream live (record_event (Call ReapUDP) p') rest)"
| "copyToUpstream live p (CloseCh # rest) = (Returned (), copyToUpstream_deferred p)"

text \<open>A packet whose protocol is none of TCP, UDP and ICMP.\<close>

definition unknownProtocol :: "ipPacket \<Rightarrow> bool" where
  "unknownProtocol pkt =
     (ipProto pkt \<noteq> IPProtocolTCP \<and> ipProto pkt \<noteq> IPProtocolUDP
      \<and> ipProto pkt \<noteq> IPProtocolICMP)"

text \<open>Events that create an origin or hand a packet to a stack.\<close>

fun createsOrInjects :: "event \<Rightarrow> bool" where
  "createsOrInjects (Inject bs) = True"
| "createsOrInjects (InjectICMP bs) = True"
| "createsOrInjects (CreateNIC n) = True"
| "createsOrInjects (Go c) = True"
| "createsOrInjects (Call c) = True"
| "createsOrInjects e = False"

section \<open>An example state\<close>

text \<open>
  The proxy that \<open>New\<close> returns for downstream 0 and nil options, a TCP packet for
  10.0.0.1:80, and a proxy with the default options at clock 100 s, tracking two destinations: one with
  a connection last active at 0 s and a connection last active at 99 s, and one with no
  connection, itself last active at 0 s.
\<close>

definition freshProxy :: proxy where
  "freshProxy = the (fst (New 0 None))"

definition exampleTCPPacket :: ipPacket where
  "exampleTCPPacket = \<lparr> raw = [69, 0, 0, 40], ipProto = 6,
     ft = FourTuple (Addr ''10.0.0.5'' 40000) (Addr ''10.0.0.1'' 80) \<rparr>"

definition exampleIdleConn :: baseConn where
  "exampleIdleConn = \<lparr> lastActive = 0, upstream = Some 3, ep = Some 7 \<rparr>"

definition exampleFreshConn :: baseConn where
  "exampleFreshConn = \<lparr> lastActive = 99 * Second, upstream = Some 4, ep = Some 8 \<rparr>"

definition exampleBusyDest :: tcpDest where
  "exampleBusyDest = \<lparr> lastActive = 0, upstream = None, ep = Some 1,
     addr = Addr ''10.0.0.1'' 80,
     conns = [(FullAddress 1 ''10.0.0.9'' 5000, exampleIdleConn),
              (FullAddress 1 ''10.0.0.9'' 5001, exampleFreshConn)] \<rparr>"

definition exampleIdleDest :: tcpDest where
  "exampleIdleDest = \<lparr> lastActive = 0, upstream = None, ep = Some 2,
     addr = Addr ''10.0.0.2'' 443, conns = [] \<rparr>"

definition exampleProxy :: proxy where
  "exampleProxy = freshProxy
     \<lparr> tcpConnTrack := [(Addr ''10.0.0.1'' 80, exampleBusyDest),
                        (Addr ''10.0.0.2'' 443, exampleIdleDest)],
       now := 100 * Second \<rparr>"

text \<open>
  An environment in which a connection last active at 0 s is stored in the client map
  of every destination after the reaper has copied it.
\<close>

definition exampleLateConn :: baseConn where
  "exampleLateConn = \<lparr> lastActive = 0, upstream = Some 5, ep = Some 9 \<rparr>"

definition lateArrival :: interference where
  "lateArrival a cs = cs @ [(FullAddress 1 ''10.0.0.9'' 5002, exampleLateConn)]"



section \<open>Theorems\<close>

text \<open>
  C9.  For every \<open>Opts\<close> value, and for the nil pointer, \<open>ApplyDefaults\<close> gives each
  option that is zero or negative (a function option: nil) its default, MTU 1500,
  OutboundBufferDepth 10000, IdleTimeout 65 s, TCPConnectBacklog 10, StatsInterval 15 s
  and the \<open>net.Dialer\<close> functions, and leaves every other option as it was.
\<close>

theorem ApplyDefaults_fields:
  "MTU (ApplyDefaults p) = (if MTU (receiver p) \<le> 0 then 1500 else MTU (receiver p))
   \<and> OutboundBufferDepth (ApplyDefaults p) =
       (if OutboundBufferDepth (receiver p) \<le> 0 then 10000
        else OutboundBufferDepth (receiver p))
   \<and> IdleTimeout (ApplyDefaults p) =
       (if IdleTimeout (receiver p) \<le> 0 then 65 * 1000000000
        else IdleTimeout (receiver p))
   \<and> TCPConnectBacklog (ApplyDefaults p) =
       (if TCPConnectBacklog (receiver p) \<le> 0 then 10 else TCPConnectBacklog (receiver p))
   \<and> StatsInterval (ApplyDefaults p) =
       (if StatsInterval (receiver p) \<le> 0 then 15 * 1000000000
        else StatsInterval (receiver p))
   \<and> DialTCP (ApplyDefaults p) =
       (if DialTCP (receiver p) = None then Some NetDialerDialContext
        else DialTCP (receiver p))
   \<and> DialUDP (ApplyDefaults p) =
       (if DialUDP (receiver p) = None then Some NetDialerDialContextUDP
        else DialUDP (receiver p))"
  by (simp add: ApplyDefaults_def receiver_def Let_def DefaultMTU_def
      DefaultOutboundBufferDepth_def DefaultIdleTimeout_def DefaultTCPConnectBacklog_def
      DefaultStatsInterval_def Second_def)

text \<open>
  C10.  For every downstream handle and every \<open>opts\<close> argument, nil included,
  \<open>New\<close> returns a proxy that is not nil and an error that is nil; the proxy holds
  the defaulted options.
\<close>

theorem New_never_fails:
  "\<exists>p. New ds po = (Some p, None) \<and> opts p = ApplyDefaults po"
  by (simp add: New_def Let_def)

subsection \<open>The endpoint write loop\<close>



lemma backoff_bounded: "backoff i = Some d \<Longrightarrow> 0 < d \<and> d \<le> maxWriteWait"
  by (auto simp: backoff_def Let_def split: if_splits)

lemma delivered_Nil [simp]: "delivered [] = 0"
  by (simp add: delivered_def)

lemma delivered_Cons [simp]: "delivered (a # as) = written a + delivered as"
  by (simp add: delivered_def)



lemma loop_length: "length (snd (writeLoop i b rs)) \<le> length rs"
  by (induction i b rs rule: writeLoop.induct) auto






subsection \<open>Finalizers\<close>

lemma Close_Closed: "(Close fin ^^ n) (Closed, evs) = (Closed, evs)"
  by (induction n) (simp_all add: Close_def)

lemma Close_once: "(Close fin ^^ Suc n) (Open, evs) = (Closed, evs @ fst fin)"
proof -
  have "(Close fin ^^ Suc n) (Open, evs) = (Close fin ^^ n) (Close fin (Open, evs))"
    by (simp only: funpow_Suc_right o_apply)
  then show ?thesis by (simp add: Close_def Close_Closed)
qed

text \<open>
  C5.  When an origin is closed, however many times \<open>Close\<close> is called, its finalizer
  runs once, and its calls are, in this order: close the stack, run the caller-supplied
  (map-removal) finalizer, drain the outbound channel, close the upstream handle if
  there is one, unregister the wait-queue entry, close the endpoint (if one was set).
  A connection that is not an origin has no stack and no channel of its own, and makes
  the remaining calls in the same order.
\<close>

theorem finalizer_order:
  "fst (conn_finalizer (newOrigin_finalizer (Some r)) conn closed) =
     [StackClose, CallerFinalizer, ChannelDrain]
     @ (if upstream conn = None then [] else [UpstreamClose])
     @ [WqEventUnregister]
     @ (if ep conn = None then [] else [EndpointClose])
   \<and> fst (conn_finalizer (Some ([CallerFinalizer], r)) conn closed) =
     [CallerFinalizer]
     @ (if upstream conn = None then [] else [UpstreamClose])
     @ [WqEventUnregister]
     @ (if ep conn = None then [] else [EndpointClose])
   \<and> (Close (conn_finalizer (newOrigin_finalizer (Some r)) conn closed) ^^ Suc n) (Open, []) =
     (Closed, fst (conn_finalizer (newOrigin_finalizer (Some r)) conn closed))
   \<and> (Close (conn_finalizer (Some ([CallerFinalizer], r)) conn closed) ^^ Suc n) (Open, []) =
     (Closed, fst (conn_finalizer (Some ([CallerFinalizer], r)) conn closed))"
  by (simp only: Close_once append_Nil)
     (simp add: conn_finalizer_def newOrigin_finalizer_def)

subsection \<open>The TCP acceptor\<close>

lemma accept_append:
  "list_all keepsAccepting pre \<Longrightarrow>
   accept dest (pre @ rest) =
     (case accept dest pre of (out1, d1, evs1) \<Rightarrow>
        case accept d1 rest of (out2, d2, evs2) \<Rightarrow> (out2, d2, evs1 @ evs2))"
proof (induction dest pre rule: accept.induct)
  case (1 dest)
  then show ?case by (simp split: prod.splits)
next
  case (2 dest e rest')
  then show ?case by (simp split: prod.splits)
next
  case (3 dest acceptedEp downstreamAddr dial t rest')
  then show ?case by (cases dial) (simp_all add: Let_def split: prod.splits)
qed

text \<open>
  C6.  At any pass of the acceptor loop (after any answers \<open>pre\<close> that kept it
  running): when \<open>Accept\<close> answers \<open>WouldBlock\<close> the acceptor waits on the notifier
  and goes on with the answers that follow; when the upstream dial fails for an
  accepted flow, the acceptor logs, returns without reading any further answer, and
  leaves the destination, its client map included, as it was before that flow.
\<close>

theorem accept_wouldblock_and_dial_failure:
  assumes "list_all keepsAccepting pre"
  shows "accept dest (pre @ AcceptFails ErrWouldBlock # rest) =
           (fst (accept (fst (snd (accept dest pre))) rest),
            fst (snd (accept (fst (snd (accept dest pre))) rest)),
            snd (snd (accept dest pre)) @ WaitNotify
              # snd (snd (accept (fst (snd (accept dest pre))) rest)))
       \<and> accept dest (pre @ AcceptOk acceptedEp downstreamAddr (DialErr dialErr) t # rest) =
           (Returned (), fst (snd (accept dest pre)),
            snd (snd (accept dest pre))
              @ [LogError ''Unexpected error dialing upstream to %v: %v''])
       \<and> conns (fst (snd (accept dest
             (pre @ AcceptOk acceptedEp downstreamAddr (DialErr dialErr) t # rest)))) =
           conns (fst (snd (accept dest pre)))"
  by (simp add: accept_append [OF assms] split: prod.splits)

theorem accept_wouldblock_and_dial_failure_witness:
  "list_all keepsAccepting
     [AcceptFails ErrWouldBlock, AcceptOk 7 (FullAddress 1 ''10.0.0.9'' 5000) (DialOk 3) 10]
   \<and> accept \<lparr> lastActive = 0, upstream = None, ep = Some 1,
               addr = Addr ''10.0.0.1'' 80, conns = [] \<rparr>
        ([AcceptFails ErrWouldBlock, AcceptOk 7 (FullAddress 1 ''10.0.0.9'' 5000) (DialOk 3) 10]
         @ AcceptOk 8 (FullAddress 1 ''10.0.0.8'' 5001) (DialErr (IOError 1)) 20
         # [AcceptOk 9 (FullAddress 1 ''10.0.0.7'' 5002) (DialOk 4) 30])
      = (Returned (),
         \<lparr> lastActive = 0, upstream = None, ep = Some 1, addr = Addr ''10.0.0.1'' 80,
           conns = [(FullAddress 1 ''10.0.0.9'' 5000,
                     \<lparr> lastActive = 10, upstream = Some 3, ep = Some 7 \<rparr>)] \<rparr>,
         [WaitNotify,
          Go (CopyToUpstream \<lparr> lastActive = 10, upstream = Some 3, ep = Some 7 \<rparr>),
          Go (CopyFromUpstream \<lparr> lastActive = 10, upstream = Some 3, ep = Some 7 \<rparr>),
          Lock (ConnsMx (Addr ''10.0.0.1'' 80)), Unlock (ConnsMx (Addr ''10.0.0.1'' 80)),
          LogError ''Unexpected error dialing upstream to %v: %v''])"
  using accept_wouldblock_and_dial_failure
    [of "[AcceptFails ErrWouldBlock, AcceptOk 7 (FullAddress 1 ''10.0.0.9'' 5000) (DialOk 3) 10]"
        "\<lparr> lastActive = 0, upstream = None, ep = Some 1,
           addr = Addr ''10.0.0.1'' 80, conns = [] \<rparr>"
        "[AcceptOk 9 (FullAddress 1 ''10.0.0.7'' 5002) (DialOk 4) 30]"
        8 "FullAddress 1 ''10.0.0.8'' 5001" "IOError 1" 20]
  by (simp add: Let_def)

subsection \<open>TCP destinations\<close>

lemma originsFor_Nil [simp]: "originsFor a [] = 0"
  by (simp add: originsFor_def)

lemma originsFor_append [simp]:
  "originsFor a (xs @ ys) = originsFor a xs + originsFor a ys"
  by (simp add: originsFor_def)

lemma originsFor_Cons [simp]:
  "originsFor a (e # evs) = (if startsOrigin a e then 1 else 0) + originsFor a evs"
  by (simp add: originsFor_def)

lemma startTCPDest_Inl:
  assumes "startTCPDest reply p a = (Inl e, p')"
  shows "tcpConnTrack p' = tcpConnTrack p \<and> originsFor k (trace p') = originsFor k (trace p)"
  using assms
  by (cases reply)
     (auto simp: startTCPDest_def nextNICID_def record_event_def Let_def split: if_splits)

lemma startTCPDest_Inr:
  assumes "startTCPDest reply p a = (Inr d, p')"
  shows "reply = StackOk \<and> addr d = a \<and> tcpConnTrack p' = tcpConnTrack p
       \<and> originsFor k (trace p') = originsFor k (trace p) + (if k = a then 1 else 0)"
  using assms
  by (cases reply)
     (auto simp: startTCPDest_def nextNICID_def record_event_def Let_def split: if_splits)

lemma onTCP_keeps_one_origin_per_key:
  assumes "one_origin_per_key p"
  shows "one_origin_per_key (onTCP reply p pkt)"
proof (cases "map_of (tcpConnTrack p) (dst (ft pkt))")
  case (Some d)
  then show ?thesis
    using assms by (simp add: onTCP_def one_origin_per_key_def record_event_def Let_def)
next
  case None
  let ?q = "record_event (Unlock TcpConnTrackMx) (record_event (Lock TcpConnTrackMx) p)"
  have q: "tcpConnTrack ?q = tcpConnTrack p" "\<And>k. originsFor k (trace ?q) = originsFor k (trace p)"
    by (simp_all add: record_event_def)
  obtain res p' where st: "startTCPDest reply ?q (dst (ft pkt)) = (res, p')"
    by (cases "startTCPDest reply ?q (dst (ft pkt))")
  show ?thesis
  proof (cases res)
    case (Inl e)
    from startTCPDest_Inl [OF st [unfolded Inl]] q assms None st Inl
    show ?thesis
      by (simp add: onTCP_def one_origin_per_key_def record_event_def Let_def)
  next
    case (Inr d)
    from startTCPDest_Inr [OF st [unfolded Inr]] q assms None st Inr
    show ?thesis
      by (auto simp: onTCP_def one_origin_per_key_def record_event_def Let_def
          update_conv')
  qed
qed

lemma onTCP_all_keeps_one_origin_per_key:
  "one_origin_per_key p \<Longrightarrow> one_origin_per_key (onTCP_all p steps)"
  by (induction p steps rule: onTCP_all.induct) (simp_all add: onTCP_keeps_one_origin_per_key)

lemma onTCP_present:
  assumes "map_of (tcpConnTrack q) (dst (ft pkt)) \<noteq> None"
  shows "onTCP reply q pkt =
     q\<lparr> trace := trace q @ [Lock TcpConnTrackMx, Unlock TcpConnTrackMx, Inject (raw pkt)] \<rparr>"
  using assms by (auto simp: onTCP_def record_event_def Let_def)

lemma onTCP_absent_ok:
  assumes "map_of (tcpConnTrack q) (dst (ft pkt)) = None"
  shows "\<exists>d. addr d = dst (ft pkt)
      \<and> tcpConnTrack (onTCP StackOk q pkt) = AList.update (dst (ft pkt)) d (tcpConnTrack q)
      \<and> trace (onTCP StackOk q pkt) =
          trace q @ [Lock TcpConnTrackMx, Unlock TcpConnTrackMx,
            CreateNIC (Suc (nicCounter q)),
            AddAddress (Suc (nicCounter q)) (ip (dst (ft pkt))),
            InitDest (Suc (nicCounter q)) (dst (ft pkt)),
            Listen (TCPConnectBacklog (opts q)),
            Go (Accept d),
            Lock TcpConnTrackMx, Unlock TcpConnTrackMx, Inject (raw pkt)]"
  using assms
  by (simp add: onTCP_def startTCPDest_def nextNICID_def record_event_def Let_def)

lemma onTCP_absent_failed:
  assumes "map_of (tcpConnTrack q) (dst (ft pkt)) = None" and "reply \<noteq> StackOk"
  shows "tcpConnTrack (onTCP reply q pkt) = tcpConnTrack q
      \<and> originsFor a (trace (onTCP reply q pkt)) = originsFor a (trace q)"
  using assms
  by (cases reply)
     (simp_all add: onTCP_def startTCPDest_def nextNICID_def record_event_def Let_def)

text \<open>
  C4.  Starting from a proxy with no destination, after any sequence of TCP packets
  handled by \<open>onTCP\<close>, whatever the stack replies: for every destination address
  there is at most one origin, and there is one exactly when the map has an entry for
  the address.  \<open>onTCP\<close> starts a destination only when the key is absent: with the
  key present it takes and releases the mutex for the lookup and injects the packet;
  with the key absent it looks up under the mutex, starts the destination, stores it
  under the mutex and injects; when starting fails nothing is stored and no origin
  exists for it.
\<close>

theorem onTCP_one_origin_per_key:
  assumes "tcpConnTrack p = []" and "trace p = []"
  shows "originsFor a (trace (onTCP_all p steps)) \<le> 1
       \<and> originsFor a (trace (onTCP_all p steps)) =
           (if map_of (tcpConnTrack (onTCP_all p steps)) a = None then 0 else 1)
       \<and> (map_of (tcpConnTrack q) (dst (ft pkt)) \<noteq> None \<longrightarrow>
           onTCP reply q pkt =
             q\<lparr> trace := trace q
                   @ [Lock TcpConnTrackMx, Unlock TcpConnTrackMx, Inject (raw pkt)] \<rparr>)
       \<and> (map_of (tcpConnTrack q) (dst (ft pkt)) = None \<longrightarrow>
           (\<exists>d. addr d = dst (ft pkt)
              \<and> tcpConnTrack (onTCP StackOk q pkt) =
                  AList.update (dst (ft pkt)) d (tcpConnTrack q)
              \<and> trace (onTCP StackOk q pkt) =
                  trace q @ [Lock TcpConnTrackMx, Unlock TcpConnTrackMx,
                    CreateNIC (Suc (nicCounter q)),
                    AddAddress (Suc (nicCounter q)) (ip (dst (ft pkt))),
                    InitDest (Suc (nicCounter q)) (dst (ft pkt)),
                    Listen (TCPConnectBacklog (opts q)),
                    Go (Accept d),
                    Lock TcpConnTrackMx, Unlock TcpConnTrackMx, Inject (raw pkt)]))
       \<and> (map_of (tcpConnTrack q) (dst (ft pkt)) = None \<and> reply \<noteq> StackOk \<longrightarrow>
           tcpConnTrack (onTCP reply q pkt) = tcpConnTrack q
           \<and> originsFor a (trace (onTCP reply q pkt)) = originsFor a (trace q))"
proof -
  have "one_origin_per_key p"
    using assms by (simp add: one_origin_per_key_def)
  then have "one_origin_per_key (onTCP_all p steps)"
    by (rule onTCP_all_keeps_one_origin_per_key)
  then have inv: "originsFor a (trace (onTCP_all p steps)) =
      (if map_of (tcpConnTrack (onTCP_all p steps)) a = None then 0 else 1)"
    by (simp add: one_origin_per_key_def)
  show ?thesis
    using inv onTCP_present [of q pkt reply] onTCP_absent_ok [of q pkt]
      onTCP_absent_failed [of q pkt reply a]
    by simp
qed

theorem onTCP_one_origin_per_key_witness:
  "tcpConnTrack freshProxy = []
   \<and> trace freshProxy = []
   \<and> originsFor (Addr ''10.0.0.1'' 80)
        (trace (onTCP_all freshProxy
          [(ListenFails, exampleTCPPacket), (StackOk, exampleTCPPacket),
           (StackOk, exampleTCPPacket)])) = 1
   \<and> map fst (tcpConnTrack (onTCP_all freshProxy
          [(ListenFails, exampleTCPPacket), (StackOk, exampleTCPPacket),
           (StackOk, exampleTCPPacket)])) = [Addr ''10.0.0.1'' 80]
   \<and> map_of (tcpConnTrack freshProxy) (dst (ft exampleTCPPacket)) = None
   \<and> tcpConnTrack (onTCP ListenFails freshProxy exampleTCPPacket) = []
   \<and> map fst (tcpConnTrack (onTCP StackOk freshProxy exampleTCPPacket)) = [Addr ''10.0.0.1'' 80]
   \<and> map_of (tcpConnTrack (onTCP StackOk freshProxy exampleTCPPacket))
        (dst (ft exampleTCPPacket)) \<noteq> None
   \<and> onTCP StackOk (onTCP StackOk freshProxy exampleTCPPacket) exampleTCPPacket =
        (onTCP StackOk freshProxy exampleTCPPacket)
          \<lparr> trace := trace (onTCP StackOk freshProxy exampleTCPPacket)
               @ [Lock TcpConnTrackMx, Unlock TcpConnTrackMx, Inject (raw exampleTCPPacket)] \<rparr>"
proof -
  let ?steps = "[(ListenFails, exampleTCPPacket), (StackOk, exampleTCPPacket),
      (StackOk, exampleTCPPacket)]"
  let ?q = "onTCP StackOk freshProxy exampleTCPPacket"
  have fresh: "tcpConnTrack freshProxy = []" "trace freshProxy = []"
    by (simp_all add: freshProxy_def New_def Let_def)
  have absent: "map_of (tcpConnTrack freshProxy) (dst (ft exampleTCPPacket)) = None"
    by (simp add: fresh)
  have keys_q: "map fst (tcpConnTrack ?q) = [Addr ''10.0.0.1'' 80]"
    by (simp add: fresh exampleTCPPacket_def onTCP_def startTCPDest_def nextNICID_def
        record_event_def Let_def)
  have present: "map_of (tcpConnTrack ?q) (dst (ft exampleTCPPacket)) \<noteq> None"
    by (simp add: fresh exampleTCPPacket_def onTCP_def startTCPDest_def nextNICID_def
        record_event_def Let_def)
  have keys: "map fst (tcpConnTrack (onTCP_all freshProxy ?steps)) = [Addr ''10.0.0.1'' 80]"
    by (simp add: fresh exampleTCPPacket_def onTCP_def startTCPDest_def nextNICID_def
        record_event_def Let_def)
  have count: "originsFor (Addr ''10.0.0.1'' 80) (trace (onTCP_all freshProxy ?steps)) = 1"
    by (simp add: fresh exampleTCPPacket_def onTCP_def startTCPDest_def nextNICID_def
        record_event_def Let_def)
  note failed = onTCP_one_origin_per_key [OF fresh, of "Addr ''10.0.0.1'' 80" ?steps
      freshProxy exampleTCPPacket ListenFails]
  note again = onTCP_one_origin_per_key [OF fresh, of "Addr ''10.0.0.1'' 80" ?steps
      ?q exampleTCPPacket StackOk]
  from failed absent fresh have 1: "tcpConnTrack (onTCP ListenFails freshProxy exampleTCPPacket) = []"
    by simp
  from again present have 2: "onTCP StackOk ?q exampleTCPPacket =
      ?q\<lparr> trace := trace ?q
           @ [Lock TcpConnTrackMx, Unlock TcpConnTrackMx, Inject (raw exampleTCPPacket)] \<rparr>"
    by blast
  from fresh count keys absent 1 keys_q present 2 show ?thesis
    by simp
qed

subsection \<open>The reaper\<close>

lemma reapTCP_not_Some:
  assumes "reapTCP live p = Some r"
  shows False
  by (rule reapTCP.raw_induct [where P = "\<lambda>live p r. False", OF _ assms]) blast

lemma reapTCP_diverges: "reapTCP live p = None"
  using reapTCP_not_Some [of live p] by (cases "reapTCP live p") auto

lemma record_event_simps [simp]:
  "trace (record_event e p) = trace p @ [e]"
  "now (record_event e p) = now p"
  "opts (record_event e p) = opts p"
  "tcpConnTrack (record_event e p) = tcpConnTrack p"
  by (simp_all add: record_event_def)

lemma closeIdle_frame [simp]:
  "now (closeIdle p cs) = now p"
  "opts (closeIdle p cs) = opts p"
  "tcpConnTrack (closeIdle p cs) = tcpConnTrack p"
  by (induction p cs rule: closeIdle.induct) simp_all

lemma closeIdle_trace:
  "trace (closeIdle p cs) =
     trace p @ map (\<lambda>c. Go (CloseConn c)) (filter (idle p (now p)) cs)"
  by (induction p cs rule: closeIdle.induct) (simp_all add: idle_def)

lemma reapDest_frame [simp]:
  "now (reapDest live p a dest) = now p"
  "opts (reapDest live p a dest) = opts p"
  by (simp_all add: reapDest_def Let_def)

lemma reapDests_frame [simp]:
  "now (reapDests live p ds) = now p"
  "opts (reapDests live p ds) = opts p"
  by (induction live p ds rule: reapDests.induct) simp_all

lemma reapDest_trace:
  "\<exists>evs. trace (reapDest live p a dest) = trace p @ evs \<and> \<not> list_ex waitsForConn evs"
  by (simp add: reapDest_def Let_def closeIdle_trace list_ex_iff image_iff)

lemma reapDests_trace:
  "\<exists>evs. trace (reapDests live p ds) = trace p @ evs \<and> \<not> list_ex waitsForConn evs"
proof (induction live p ds rule: reapDests.induct)
  case (1 live p)
  then show ?case by simp
next
  case (2 live p a dest rest)
  obtain evs1 where 1: "trace (reapDest live p a dest) = trace p @ evs1"
      "\<not> list_ex waitsForConn evs1"
    using reapDest_trace by blast
  obtain evs2 where "trace (reapDests live (reapDest live p a dest) rest) =
      trace (reapDest live p a dest) @ evs2" "\<not> list_ex waitsForConn evs2"
    using 2 by blast
  with 1 have "trace (reapDests live p ((a, dest) # rest)) = trace p @ (evs1 @ evs2)
      \<and> \<not> list_ex waitsForConn (evs1 @ evs2)"
    by simp
  then show ?case by blast
qed

lemma reapDests_trace_mono:
  "e \<in> set (trace p) \<Longrightarrow> e \<in> set (trace (reapDests live p ds))"
  using reapDests_trace [of live p ds] by auto

lemma reapDest_deleted_stays:
  "map_of (tcpConnTrack p) k = None \<Longrightarrow> map_of (tcpConnTrack (reapDest live p a dest)) k = None"
  by (simp add: reapDest_def Let_def delete_conv')

lemma reapDests_deleted_stays:
  "map_of (tcpConnTrack p) k = None \<Longrightarrow> map_of (tcpConnTrack (reapDests live p ds)) k = None"
  by (induction live p ds rule: reapDests.induct) (simp_all add: reapDest_deleted_stays)

lemma reapDest_closes_idle_conn:
  assumes "c \<in> snd ` set (conns dest)" and "idle p (now p) c"
  shows "Go (CloseConn c) \<in> set (trace (reapDest undisturbed p a dest))"
proof -
  from assms(1) have "conns dest \<noteq> []" by auto
  with assms show ?thesis
    by (auto simp: reapDest_def Let_def closeIdle_trace undisturbed_def idle_def image_iff)
qed

lemma reapDest_removes_idle_dest:
  assumes "conns dest = []" and "idle p (now p) dest"
  shows "map_of (tcpConnTrack (reapDest live p a dest)) a = None
       \<and> Call (CloseDest dest) \<in> set (trace (reapDest live p a dest))"
  using assms by (simp add: reapDest_def Let_def idle_def delete_conv')

lemma idle_reapDest [simp]: "idle (reapDest live p b d) clock c = idle p clock c"
  by (simp add: idle_def)

lemma reapDests_closes_idle_conn:
  assumes "(a, dest) \<in> set ds" and "c \<in> snd ` set (conns dest)" and "idle p (now p) c"
  shows "Go (CloseConn c) \<in> set (trace (reapDests undisturbed p ds))"
  using assms
proof (induction ds arbitrary: p)
  case Nil
  then show ?case by simp
next
  case (Cons entry rest)
  obtain b d where entry: "entry = (b, d)" by (cases entry)
  show ?case
  proof (cases "(a, dest) = (b, d)")
    case True
    then have "a = b" "dest = d" by simp_all
    with Cons.prems have "Go (CloseConn c) \<in> set (trace (reapDest undisturbed p b d))"
      by (simp add: reapDest_closes_idle_conn)
    then show ?thesis by (simp add: entry reapDests_trace_mono)
  next
    case False
    with Cons.prems(1) entry have "(a, dest) \<in> set rest" by auto
    moreover have "idle (reapDest undisturbed p b d) (now (reapDest undisturbed p b d)) c"
      using Cons.prems(3) by simp
    ultimately have "Go (CloseConn c)
        \<in> set (trace (reapDests undisturbed (reapDest undisturbed p b d) rest))"
      using Cons.IH Cons.prems(2) by blast
    then show ?thesis by (simp add: entry)
  qed
qed

lemma reapDests_removes_idle_dest:
  assumes "(a, dest) \<in> set ds" and "conns dest = []" and "idle p (now p) dest"
  shows "map_of (tcpConnTrack (reapDests live p ds)) a = None
       \<and> Call (CloseDest dest) \<in> set (trace (reapDests live p ds))"
  using assms
proof (induction ds arbitrary: p)
  case Nil
  then show ?case by simp
next
  case (Cons entry rest)
  obtain b d where entry: "entry = (b, d)" by (cases entry)
  show ?case
  proof (cases "(a, dest) = (b, d)")
    case True
    then have "a = b" "dest = d" by simp_all
    with Cons.prems have "map_of (tcpConnTrack (reapDest live p b d)) a = None
        \<and> Call (CloseDest dest) \<in> set (trace (reapDest live p b d))"
      by (simp add: reapDest_removes_idle_dest)
    then show ?thesis
      by (simp add: entry reapDests_trace_mono reapDests_deleted_stays)
  next
    case False
    with Cons.prems(1) entry have "(a, dest) \<in> set rest" by auto
    moreover have "idle (reapDest live p b d) (now (reapDest live p b d)) dest"
      using Cons.prems(3) by simp
    ultimately have "map_of (tcpConnTrack (reapDests live (reapDest live p b d) rest)) a = None
        \<and> Call (CloseDest dest) \<in> set (trace (reapDests live (reapDest live p b d) rest))"
      using Cons.IH Cons.prems(2) by blast
    then show ?thesis by (simp add: entry)
  qed
qed

text \<open>
  C1 fails on the code.  The claim has \<open>reapTCP\<close> make one pass and return, so that
  after every tick the demux task goes back to its \<open>select\<close>.  \<open>reapTCP\<close> is a
  \<open>for\<close> loop without an exit: it never returns, from any state and whatever the
  other goroutines do, and the demux loop that calls it on a tick never reads another
  case, whatever follows the tick.
\<close>

theorem reapTCP_never_returns:
  "reapTCP live p = None \<and> copyToUpstream live p (ReapTick # rest) = (Diverged, p)"
  by (simp add: reapTCP_diverges)

lemma reapTCP_pass_unfold:
  "reapTCP_pass live p =
     reapDests live
       (record_event (Unlock TcpConnTrackMx)
         (record_event (Lock TcpConnTrackMx)
           (record_event (Sleep Second) (p\<lparr> now := now p + Second \<rparr>))))
       (tcpConnTrack p)"
  by (simp add: reapTCP_pass_def Let_def)

text \<open>
  What one pass of the reaper does, for every destination \<open>dest\<close> in the destination
  map under its key \<open>a\<close>, with the clock as it is after the pass's sleep: when no
  other goroutine changes the client map of the destination between the copy and the
  loop, every client connection that has been idle longer than the idle timeout is
  closed by \<open>go conn.Close()\<close>; a destination with no client that has itself been
  idle longer than the idle timeout is removed from the map and closed by an ordinary
  call \<open>dest.Close()\<close>; and the pass never waits for the close of a connection.
\<close>

lemma reapTCP_pass_closes_idle:
  assumes "(a, dest) \<in> set (tcpConnTrack p)"
  shows "(\<forall>c \<in> snd ` set (conns dest). idle p (now p + Second) c \<longrightarrow>
            Go (CloseConn c) \<in> set (trace (reapTCP_pass undisturbed p)))
       \<and> (conns dest = [] \<and> idle p (now p + Second) dest \<longrightarrow>
            map_of (tcpConnTrack (reapTCP_pass live p)) a = None
            \<and> Call (CloseDest dest) \<in> set (trace (reapTCP_pass live p)))
       \<and> (\<exists>evs. trace (reapTCP_pass live p) = trace p @ evs \<and> \<not> list_ex waitsForConn evs)"
proof (intro conjI ballI impI)
  let ?q = "\<lambda>live. record_event (Unlock TcpConnTrackMx)
         (record_event (Lock TcpConnTrackMx)
           (record_event (Sleep Second) (p\<lparr> now := now p + Second \<rparr>)))"
  have q: "now (?q live) = now p + Second" "opts (?q live) = opts p" for live
    by simp_all
  {
    fix c assume c: "c \<in> snd ` set (conns dest)" "idle p (now p + Second) c"
    then have "idle (?q undisturbed) (now (?q undisturbed)) c"
      by (simp add: idle_def)
    from reapDests_closes_idle_conn [OF assms c(1) this]
    show "Go (CloseConn c) \<in> set (trace (reapTCP_pass undisturbed p))"
      by (simp add: reapTCP_pass_unfold)
  }
  {
    assume d: "conns dest = [] \<and> idle p (now p + Second) dest"
    then have "idle (?q live) (now (?q live)) dest"
      by (simp add: idle_def)
    from reapDests_removes_idle_dest [OF assms _ this, of live] d
    show "map_of (tcpConnTrack (reapTCP_pass live p)) a = None"
      and "Call (CloseDest dest) \<in> set (trace (reapTCP_pass live p))"
      by (simp_all add: reapTCP_pass_unfold)
  }
  obtain evs where evs: "trace (reapDests live (?q live) (tcpConnTrack p)) = trace (?q live) @ evs"
      "\<not> list_ex waitsForConn evs"
    using reapDests_trace by blast
  then have "trace (reapTCP_pass live p) =
      trace p @ ([Sleep Second, Lock TcpConnTrackMx, Unlock TcpConnTrackMx] @ evs)
      \<and> \<not> list_ex waitsForConn ([Sleep Second, Lock TcpConnTrackMx, Unlock TcpConnTrackMx] @ evs)"
    by (simp add: reapTCP_pass_unfold)
  then show "\<exists>evs. trace (reapTCP_pass live p) = trace p @ evs \<and> \<not> list_ex waitsForConn evs"
    by blast
qed

lemma example_pass:
  "trace (reapTCP_pass undisturbed exampleProxy) =
     [Sleep Second, Lock TcpConnTrackMx, Unlock TcpConnTrackMx,
      Lock (ConnsMx (Addr ''10.0.0.1'' 80)), Unlock (ConnsMx (Addr ''10.0.0.1'' 80)),
      Go (CloseConn exampleIdleConn),
      Lock (ConnsMx (Addr ''10.0.0.2'' 443)), Unlock (ConnsMx (Addr ''10.0.0.2'' 443)),
      Lock TcpConnTrackMx, Unlock TcpConnTrackMx,
      Call (CloseDest exampleIdleDest)]"
  "tcpConnTrack (reapTCP_pass undisturbed exampleProxy) =
     [(Addr ''10.0.0.1'' 80, exampleBusyDest)]"
  by (simp_all add: reapTCP_pass_unfold reapDest_def Let_def exampleProxy_def freshProxy_def New_def
      ApplyDefaults_def zeroOpts_def DefaultIdleTimeout_def Second_def undisturbed_def
      timeSinceLastActive_def wrap64_def exampleBusyDest_def exampleIdleDest_def
      exampleIdleConn_def exampleFreshConn_def record_event_def AList.delete_eq)

lemma reapTCP_pass_closes_idle_example:
  "(Addr ''10.0.0.2'' 443, exampleIdleDest) \<in> set (tcpConnTrack exampleProxy)
   \<and> conns exampleIdleDest = []
   \<and> idle exampleProxy (now exampleProxy + Second) exampleIdleDest
   \<and> map_of (tcpConnTrack (reapTCP_pass undisturbed exampleProxy)) (Addr ''10.0.0.2'' 443) = None
   \<and> Call (CloseDest exampleIdleDest) \<in> set (trace (reapTCP_pass undisturbed exampleProxy))
   \<and> (Addr ''10.0.0.1'' 80, exampleBusyDest) \<in> set (tcpConnTrack exampleProxy)
   \<and> exampleIdleConn \<in> snd ` set (conns exampleBusyDest)
   \<and> idle exampleProxy (now exampleProxy + Second) exampleIdleConn
   \<and> Go (CloseConn exampleIdleConn) \<in> set (trace (reapTCP_pass undisturbed exampleProxy))"
proof -
  have inB: "(Addr ''10.0.0.2'' 443, exampleIdleDest) \<in> set (tcpConnTrack exampleProxy)"
    and inA: "(Addr ''10.0.0.1'' 80, exampleBusyDest) \<in> set (tcpConnTrack exampleProxy)"
    by (simp_all add: exampleProxy_def)
  have none: "conns exampleIdleDest = []"
    by (simp add: exampleIdleDest_def)
  have cl: "exampleIdleConn \<in> snd ` set (conns exampleBusyDest)"
    by (simp add: exampleBusyDest_def)
  have idleB: "idle exampleProxy (now exampleProxy + Second) exampleIdleDest"
    and idleC: "idle exampleProxy (now exampleProxy + Second) exampleIdleConn"
    by (simp_all add: idle_def timeSinceLastActive_def wrap64_def exampleProxy_def freshProxy_def New_def
        ApplyDefaults_def zeroOpts_def DefaultIdleTimeout_def Second_def Let_def
        exampleIdleDest_def exampleIdleConn_def)
  note B = reapTCP_pass_closes_idle [OF inB, of undisturbed]
  note A = reapTCP_pass_closes_idle [OF inA, of undisturbed]
  from B none idleB
  have "map_of (tcpConnTrack (reapTCP_pass undisturbed exampleProxy)) (Addr ''10.0.0.2'' 443) = None
      \<and> Call (CloseDest exampleIdleDest) \<in> set (trace (reapTCP_pass undisturbed exampleProxy))"
    by blast
  moreover from A cl idleC
  have "Go (CloseConn exampleIdleConn) \<in> set (trace (reapTCP_pass undisturbed exampleProxy))"
    by blast
  ultimately show ?thesis
    using inA inB none cl idleB idleC by blast
qed

text \<open>
  C3 fails on the code.  The claim has the reaper iterate only the copy of the client
  list and never wait for a finalizer, "including destination closes".  On the example
  the pass calls \<open>dest.Close()\<close> of the idle destination as an ordinary call and
  waits for it, where it closes connections with \<open>go conn.Close()\<close>; and the loop
  ranges over the client map itself, not over the copy it has just made: a connection
  that is not in the copy, stored in the map after the copy was made, is closed all
  the same.
\<close>

theorem reaper_waits_and_ranges_over_live_map:
  "list_ex waitsForClose (trace (reapTCP_pass undisturbed exampleProxy))
   \<and> Call (CloseDest exampleIdleDest) \<in> set (trace (reapTCP_pass undisturbed exampleProxy))
   \<and> exampleLateConn \<notin> snd ` set (conns exampleBusyDest)
   \<and> Go (CloseConn exampleLateConn) \<in> set (trace (reapTCP_pass lateArrival exampleProxy))"
proof -
  have "Go (CloseConn exampleLateConn) \<in> set (trace (reapTCP_pass lateArrival exampleProxy))"
    by (simp add: reapTCP_pass_unfold reapDest_def Let_def exampleProxy_def freshProxy_def New_def
        ApplyDefaults_def zeroOpts_def DefaultIdleTimeout_def Second_def lateArrival_def
        timeSinceLastActive_def wrap64_def exampleBusyDest_def exampleIdleDest_def
        exampleIdleConn_def exampleFreshConn_def exampleLateConn_def record_event_def)
  moreover have "exampleLateConn \<notin> snd ` set (conns exampleBusyDest)"
    by (simp add: exampleBusyDest_def exampleIdleConn_def exampleFreshConn_def
        exampleLateConn_def)
  ultimately show ?thesis
    by (simp add: example_pass)
qed

subsection \<open>The demultiplexer\<close>

text \<open>
  C8.  For every packet whose IP protocol is none of TCP, UDP and ICMP, in whatever
  state the proxy is: the demux loop adds one to \<open>rejectedPackets\<close>, logs at debug
  level and goes on with the cases that follow; that is all it does, so
  \<open>acceptedPackets\<close> and the destination map are as they were and no origin is
  created and nothing is injected; with nothing to follow, the loop is back in its
  \<open>select\<close>.
\<close>

theorem unknown_protocol_rejected:
  assumes "unknownProtocol pkt"
  shows "copyToUpstream live p (PktIn pkt reply # rest) =
           copyToUpstream live
             (p\<lparr> rejectedPackets := rejectedPackets p + 1,
                 trace := trace p @ [LogDebug ''Unknown IP protocol, ignoring: %v''] \<rparr>)
             rest
       \<and> fst (copyToUpstream live p [PktIn pkt reply]) = Blocked
       \<and> rejectedPackets (snd (copyToUpstream live p [PktIn pkt reply])) = rejectedPackets p + 1
       \<and> acceptedPackets (snd (copyToUpstream live p [PktIn pkt reply])) = acceptedPackets p
       \<and> tcpConnTrack (snd (copyToUpstream live p [PktIn pkt reply])) = tcpConnTrack p
       \<and> udpConns (snd (copyToUpstream live p [PktIn pkt reply])) = udpConns p
       \<and> (\<exists>evs. trace (snd (copyToUpstream live p [PktIn pkt reply])) = trace p @ evs
              \<and> \<not> list_ex createsOrInjects evs)"
  using assms
  by (simp add: unknownProtocol_def rejectedPacket_def record_event_def)

theorem unknown_protocol_rejected_witness:
  "unknownProtocol \<lparr> raw = [69, 0], ipProto = 99,
       ft = FourTuple (Addr ''10.0.0.5'' 0) (Addr ''10.0.0.1'' 0) \<rparr>
   \<and> copyToUpstream undisturbed exampleProxy
        [PktIn \<lparr> raw = [69, 0], ipProto = 99,
           ft = FourTuple (Addr ''10.0.0.5'' 0) (Addr ''10.0.0.1'' 0) \<rparr> StackOk]
      = (Blocked,
         exampleProxy\<lparr> rejectedPackets := 1,
           trace := [LogDebug ''Unknown IP protocol, ignoring: %v''] \<rparr>)"
proof -
  have u: "unknownProtocol \<lparr> raw = [69, 0], ipProto = 99,
       ft = FourTuple (Addr ''10.0.0.5'' 0) (Addr ''10.0.0.1'' 0) \<rparr>"
    by (simp add: unknownProtocol_def IPProtocolTCP_def IPProtocolUDP_def IPProtocolICMP_def)
  have p: "rejectedPackets exampleProxy = 0" "trace exampleProxy = []"
    by (simp_all add: exampleProxy_def freshProxy_def New_def Let_def)
  from unknown_protocol_rejected [OF u, of undisturbed exampleProxy StackOk "[]"] u p
  show ?thesis by simp
qed

subsection \<open>Reading from downstream\<close>




end
